theory Spec2Isabelle
  imports Main
begin

section \<open>The generic repository of \<^verbatim>\<open>src/backend/src/repositories/base.py\<close>\<close>

text \<open>
  \<^verbatim>\<open>BaseRepository\<close> binds a model class to a session factory and offers nine
  asynchronous operations. Each opens a session, runs its statements, commits when it
  mutates, and hands every exception of its \<^verbatim>\<open>try\<close> block to a handler that means to
  raise a \<^verbatim>\<open>DatabaseError\<close> chained from the cause.

  The embedding is sequential (one operation at a time) and passes the storage explicitly.
  The model class and the session are imported by the source from elsewhere, so the model
  class is a parameter (its name and its mapped columns) and the session calls the source
  makes are the primitives of the second subsection.
\<close>

subsection \<open>Values, entities, storage, exceptions\<close>

text \<open>Python values that an attribute can hold; \<open>VNone\<close> is \<^verbatim>\<open>None\<close>, stored as NULL.\<close>

datatype val = VNone | VBool bool | VInt int | VStr string

text \<open>
  \<^verbatim>\<open>**kwargs\<close>: a dict in insertion order. The order matters to \<^verbatim>\<open>_update\<close>, whose loop
  takes the items in order.
\<close>

type_synonym kwargs = "(string \<times> val) list"

text \<open>
  A model instance. \<open>ident\<close> is the primary key under which the instance is persisted
  (\<open>None\<close> for an instance that was never flushed), \<open>attrs\<close> its attributes, \<open>dirty\<close> the
  mapped attributes assigned since the last load or flush.
\<close>

record entity =
  ident :: "val option"
  attrs :: kwargs
  dirty :: "string list"

text \<open>
  The repository: \<^verbatim>\<open>self.model\<close> as the class name (\<^verbatim>\<open>self.model.__name__\<close>) and the
  mapped columns besides the primary key \<^verbatim>\<open>id\<close>, which every model has
  (\<^verbatim>\<open>_exists\<close> reads \<^verbatim>\<open>self.model.id\<close>).
\<close>

record repository =
  model_name :: string
  columns :: "string list"

text \<open>A failure of the driver while a statement or a commit touches storage.\<close>

datatype fault = ConnectionLost | ConstraintViolation | Timeout

text \<open>
  The table of the model: its committed rows (each row gives \<^verbatim>\<open>id\<close> and every column), the
  next value of the id sequence, and the outcomes of the coming round trips to storage:
  \<open>Some f\<close> makes the next round trip raise \<open>f\<close>, \<open>None\<close> lets it through, and an empty
  schedule lets every round trip through.
\<close>

record storage =
  rows :: "kwargs list"
  next_id :: int
  faults :: "fault option list"

text \<open>
  The message each handler gives to \<^verbatim>\<open>DatabaseError\<close> is an f-string: a fixed (Russian)
  text per operation followed by \<^verbatim>\<open>self.model.__name__\<close>. The fixed texts, in source order, say:
  could not create, could not get, could not create the object, could not get all objects,
  could not update the object, could not delete the object, could not check the existence
  of the object, could not filter the objects, could not delete all objects.
\<close>

datatype template =
    CreateFailed | GetFailed | CreateObjectFailed | GetAllFailed | UpdateFailed
  | DeleteFailed | ExistsFailed | FilterFailed | DeleteAllFailed

text \<open>
  Exceptions. \<open>LowLevel\<close> comes from the driver; \<open>KeyError\<close> from a dict lookup;
  \<open>InvalidRequestError\<close> from the session (a filter on an unknown attribute, deleting or
  refreshing an instance that is not persisted, refreshing a row that is gone);
  \<open>MultipleResultsFound\<close> from \<^verbatim>\<open>scalar_one_or_none\<close>; \<open>StaleDataError\<close> from an UPDATE
  that matched no row. \<open>TypeError c\<close> is a call with the wrong arguments, and \<open>c\<close> is
  the exception that was being handled when it was raised (its \<^verbatim>\<open>__context__\<close>), if any.
  \<open>DatabaseError t n c\<close> is the error the handlers name: the message \<open>t\<close> followed by
  \<open>n\<close>, with cause \<open>c\<close>.
\<close>

datatype exc =
    LowLevel fault
  | KeyError string
  | TypeError "exc option"
  | InvalidRequestError
  | MultipleResultsFound
  | StaleDataError
  | DatabaseError template string exc


text \<open>
  What \<^verbatim>\<open>raise DatabaseError(f"<t> {self.model.__name__}") from e\<close> raises while \<open>e\<close> is
  being handled. \<^verbatim>\<open>DatabaseError\<close> is \<^verbatim>\<open>sqlalchemy.exc.DatabaseError\<close>, whose constructor is
  the one it inherits from \<^verbatim>\<open>DBAPIError\<close>: \<^verbatim>\<open>__init__(self, statement, params, orig, ...)\<close>.
  Every handler of the source gives it the message alone, so the call fails with
  \<^verbatim>\<open>TypeError\<close> (\<^verbatim>\<open>params\<close> and \<^verbatim>\<open>orig\<close> are missing) before a \<^verbatim>\<open>DatabaseError\<close> exists
  and before \<^verbatim>\<open>from e\<close> applies; that \<^verbatim>\<open>TypeError\<close> leaves the handler, with \<open>e\<close> as its
  context.
\<close>

definition wrap :: "repository \<Rightarrow> template \<Rightarrow> exc \<Rightarrow> exc" where
  "wrap r t e = TypeError (Some e)"

text \<open>
  \<^verbatim>\<open>try: ... except Exception as e: logger.error(...); raise DatabaseError(...) from e\<close>,
  applied to what the \<^verbatim>\<open>try\<close> block did: a value passes, an exception is replaced by
  what the handler raises.
\<close>

definition handler :: "repository \<Rightarrow> template \<Rightarrow> (exc + 'a) \<times> 's \<Rightarrow> (exc + 'a) \<times> 's" where
  "handler r t res = (case res of (Inl e, s) \<Rightarrow> (Inl (wrap r t e), s) | (Inr x, s) \<Rightarrow> (Inr x, s))"

subsection \<open>Session primitives\<close>

text \<open>An attribute of a row or instance; one that was never set reads as \<^verbatim>\<open>None\<close>.\<close>

definition attr :: "kwargs \<Rightarrow> string \<Rightarrow> val" where
  "attr row k = (case map_of row k of None \<Rightarrow> VNone | Some v \<Rightarrow> v)"

definition is_column :: "repository \<Rightarrow> string \<Rightarrow> bool" where
  "is_column r k = (k = ''id'' \<or> k \<in> set (columns r))"

text \<open>One round trip to storage: the head of the schedule decides whether it fails.\<close>

definition touch :: "storage \<Rightarrow> fault option \<times> storage" where
  "touch s = (case faults s of [] \<Rightarrow> (None, s) | f # fs \<Rightarrow> (f, s\<lparr>faults := fs\<rparr>))"

text \<open>
  \<^verbatim>\<open>self.model(**kwargs)\<close>: the declarative constructor sets each keyword as an attribute
  and raises \<^verbatim>\<open>TypeError\<close> for a keyword that is no attribute of the class.
\<close>

definition model_init :: "repository \<Rightarrow> kwargs \<Rightarrow> exc + entity" where
  "model_init r kw =
     (if list_all (is_column r) (map fst kw)
      then Inr \<lparr>ident = None, attrs = kw, dirty = map fst kw\<rparr>
      else Inl (TypeError None))"

text \<open>
  \<^verbatim>\<open>setattr(obj, key, value)\<close>: the attribute is replaced (or added); a mapped attribute
  becomes dirty, any other name is a plain Python attribute that no statement writes.
\<close>

definition setattr :: "repository \<Rightarrow> entity \<Rightarrow> string \<Rightarrow> val \<Rightarrow> entity" where
  "setattr r obj key v =
     obj\<lparr>attrs := (key, v) # filter (\<lambda>(k, _). k \<noteq> key) (attrs obj),
         dirty := (if is_column r key then key # dirty obj else dirty obj)\<rparr>"

text \<open>The primary keys in the table, and the instance the session builds from a row.\<close>

definition ids :: "storage \<Rightarrow> val list" where
  "ids s = map (\<lambda>row. attr row ''id'') (rows s)"

definition load :: "kwargs \<Rightarrow> entity" where
  "load row = \<lparr>ident = Some (attr row ''id''), attrs = row, dirty = []\<rparr>"

text \<open>The row an INSERT writes for an instance under primary key \<open>pk\<close>.\<close>

definition new_row :: "repository \<Rightarrow> entity \<Rightarrow> val \<Rightarrow> kwargs" where
  "new_row r obj pk =
     (''id'', pk) # map (\<lambda>c. (c, attr (attrs obj) c)) (filter (\<lambda>c. c \<noteq> ''id'') (columns r))"

text \<open>The row an UPDATE leaves: the dirty columns take the instance's values.\<close>

definition updated_row :: "entity \<Rightarrow> kwargs \<Rightarrow> kwargs" where
  "updated_row obj row =
     map (\<lambda>(c, v). (c, if c \<in> set (dirty obj) then attr (attrs obj) c else v)) row"

text \<open>
  \<^verbatim>\<open>session.add(obj); await session.commit()\<close>: the flush of one instance and the commit,
  as one atomic step.
  \<^item> An instance without identity is INSERTed. Its key is the given \<^verbatim>\<open>id\<close>, or the next
    value of the sequence when \<^verbatim>\<open>id\<close> is absent or \<^verbatim>\<open>None\<close>; a key already in the table
    violates the primary-key constraint.
  \<^item> A persisted instance with no dirty column sends nothing.
  \<^item> A persisted instance with dirty columns is UPDATEd where \<^verbatim>\<open>id\<close> is its identity:
    no such row is \<^verbatim>\<open>StaleDataError\<close>; a new \<^verbatim>\<open>id\<close> that is \<^verbatim>\<open>None\<close> or taken by another
    row violates a constraint.
  A failure leaves the rows as they were.
\<close>

definition commit_add :: "repository \<Rightarrow> entity \<Rightarrow> storage \<Rightarrow> (exc + entity) \<times> storage" where
  "commit_add r obj s =
     (case ident obj of
        None \<Rightarrow>
          (case touch s of
             (Some f, s1) \<Rightarrow> (Inl (LowLevel f), s1)
           | (None, s1) \<Rightarrow>
               let given = attr (attrs obj) ''id'';
                   pk = (if given = VNone then VInt (next_id s1) else given);
                   s2 = (if given = VNone then s1\<lparr>next_id := next_id s1 + 1\<rparr> else s1)
               in if pk \<in> set (ids s2) then (Inl (LowLevel ConstraintViolation), s2)
                  else (Inr (obj\<lparr>ident := Some pk, dirty := []\<rparr>),
                        s2\<lparr>rows := rows s2 @ [new_row r obj pk]\<rparr>))
      | Some pk \<Rightarrow>
          if filter (is_column r) (dirty obj) = [] then (Inr obj, s)
          else
            (case touch s of
               (Some f, s1) \<Rightarrow> (Inl (LowLevel f), s1)
             | (None, s1) \<Rightarrow>
                 let pk' = (if ''id'' \<in> set (dirty obj) then attr (attrs obj) ''id'' else pk) in
                 if pk \<notin> set (ids s1) then (Inl StaleDataError, s1)
                 else if pk' = VNone \<or> (pk' \<noteq> pk \<and> pk' \<in> set (ids s1))
                   then (Inl (LowLevel ConstraintViolation), s1)
                 else (Inr (obj\<lparr>ident := Some pk', dirty := []\<rparr>),
                       s1\<lparr>rows := map (\<lambda>row. if attr row ''id'' = pk
                                               then updated_row obj row else row) (rows s1)\<rparr>)))"

text \<open>
  \<^verbatim>\<open>await session.refresh(obj)\<close>: reloads the mapped attributes from the row of the
  instance's identity and keeps its other attributes.
\<close>

definition refresh :: "repository \<Rightarrow> entity \<Rightarrow> storage \<Rightarrow> (exc + entity) \<times> storage" where
  "refresh r obj s =
     (case ident obj of
        None \<Rightarrow> (Inl InvalidRequestError, s)
      | Some pk \<Rightarrow>
          (case touch s of
             (Some f, s1) \<Rightarrow> (Inl (LowLevel f), s1)
           | (None, s1) \<Rightarrow>
               (case filter (\<lambda>row. attr row ''id'' = pk) (rows s1) of
                  [] \<Rightarrow> (Inl InvalidRequestError, s1)
                | row # _ \<Rightarrow>
                    (Inr (obj\<lparr>attrs := row @ filter (\<lambda>(k, _). \<not> is_column r k) (attrs obj),
                              dirty := []\<rparr>), s1))))"

text \<open>
  \<^verbatim>\<open>await session.delete(obj); await session.commit()\<close>: an instance without identity is
  refused before anything is sent; otherwise the row of that identity is deleted (a
  DELETE that matches no row only warns).
\<close>

definition commit_delete :: "entity \<Rightarrow> storage \<Rightarrow> (exc + unit) \<times> storage" where
  "commit_delete obj s =
     (case ident obj of
        None \<Rightarrow> (Inl InvalidRequestError, s)
      | Some pk \<Rightarrow>
          (case touch s of
             (Some f, s1) \<Rightarrow> (Inl (LowLevel f), s1)
           | (None, s1) \<Rightarrow>
               (Inr (), s1\<lparr>rows := filter (\<lambda>row. attr row ''id'' \<noteq> pk) (rows s1)\<rparr>)))"

text \<open>
  \<^verbatim>\<open>select(self.model).filter_by(**kwargs)\<close> builds the query and refuses a keyword that is
  no attribute of the model; the criteria are equalities (\<^verbatim>\<open>None\<close> compares as IS NULL).
\<close>

definition matches :: "kwargs \<Rightarrow> kwargs \<Rightarrow> bool" where
  "matches kw row = list_all (\<lambda>(k, v). attr row k = v) kw"

definition select_filter_by :: "repository \<Rightarrow> kwargs \<Rightarrow> exc + kwargs" where
  "select_filter_by r kw =
     (if list_all (is_column r) (map fst kw) then Inr kw else Inl InvalidRequestError)"

text \<open>\<^verbatim>\<open>await session.execute(query)\<close> for such a query: the matching rows as instances.\<close>

definition execute_select :: "kwargs \<Rightarrow> storage \<Rightarrow> (exc + entity list) \<times> storage" where
  "execute_select kw s =
     (case touch s of
        (Some f, s1) \<Rightarrow> (Inl (LowLevel f), s1)
      | (None, s1) \<Rightarrow> (Inr (map load (filter (matches kw) (rows s1))), s1))"

text \<open>
  \<^verbatim>\<open>await session.execute(select(exists().where(self.model.id == v)))\<close>: the statement is
  SELECT EXISTS (...), whose result is always exactly one row holding a boolean.
\<close>

definition execute_exists :: "val \<Rightarrow> storage \<Rightarrow> (exc + val list) \<times> storage" where
  "execute_exists v s =
     (case touch s of
        (Some f, s1) \<Rightarrow> (Inl (LowLevel f), s1)
      | (None, s1) \<Rightarrow> (Inr [VBool (v \<in> set (ids s1))], s1))"

text \<open>\<^verbatim>\<open>result.scalar_one_or_none()\<close>.\<close>

fun scalar_one_or_none :: "'a list \<Rightarrow> exc + 'a option" where
  "scalar_one_or_none [] = Inr None"
| "scalar_one_or_none [x] = Inr (Some x)"
| "scalar_one_or_none (x # y # zs) = Inl MultipleResultsFound"

text \<open>
  \<^verbatim>\<open>await session.execute(delete(self.model)); await session.commit()\<close>: two round trips;
  the deletion is visible only once the commit went through.
\<close>

definition execute_delete_commit :: "storage \<Rightarrow> (exc + unit) \<times> storage" where
  "execute_delete_commit s =
     (case touch s of
        (Some f, s1) \<Rightarrow> (Inl (LowLevel f), s1)
      | (None, s1) \<Rightarrow>
          (case touch s1 of
             (Some f, s2) \<Rightarrow> (Inl (LowLevel f), s2)
           | (None, s2) \<Rightarrow> (Inr (), s2\<lparr>rows := []\<rparr>)))"

subsection \<open>The operations\<close>

text \<open>
  Each \<open>try_f\<close> embeds the \<^verbatim>\<open>try\<close> block of \<^verbatim>\<open>BaseRepository._f\<close>, and \<open>repo_f\<close> the
  whole method: the block under the method's handler. Both return the value or the
  exception together with the storage afterwards. Opening and closing the session sends
  nothing by itself. The calls to the logger are left out.
\<close>

definition try_create :: "repository \<Rightarrow> kwargs \<Rightarrow> storage \<Rightarrow> (exc + entity) \<times> storage" where
  "try_create r kw s =
     (case model_init r kw of
        Inl e \<Rightarrow> (Inl e, s)
      | Inr obj \<Rightarrow>
          (case commit_add r obj s of
             (Inl e, s1) \<Rightarrow> (Inl e, s1)
           | (Inr obj1, s1) \<Rightarrow>
               (case refresh r obj1 s1 of
                  (Inl e, s2) \<Rightarrow> (Inl e, s2)
                | (Inr obj2, s2) \<Rightarrow> (Inr obj2, s2))))"

definition repo_create :: "repository \<Rightarrow> kwargs \<Rightarrow> storage \<Rightarrow> (exc + entity) \<times> storage" where
  "repo_create r kw s = handler r CreateFailed (try_create r kw s)"

definition try_get :: "repository \<Rightarrow> kwargs \<Rightarrow> storage \<Rightarrow> (exc + entity option) \<times> storage" where
  "try_get r kw s =
     (case select_filter_by r kw of
        Inl e \<Rightarrow> (Inl e, s)
      | Inr query \<Rightarrow>
          (case execute_select query s of
             (Inl e, s1) \<Rightarrow> (Inl e, s1)
           | (Inr result, s1) \<Rightarrow>
               (case scalar_one_or_none result of
                  Inl e \<Rightarrow> (Inl e, s1)
                | Inr found \<Rightarrow> (Inr found, s1))))"

definition repo_get :: "repository \<Rightarrow> kwargs \<Rightarrow> storage \<Rightarrow> (exc + entity option) \<times> storage" where
  "repo_get r kw s = handler r GetFailed (try_get r kw s)"

text \<open>
  \<^verbatim>\<open>_create_if_not_exists\<close>: \<^verbatim>\<open>if not obj\<close> is taken for \<^verbatim>\<open>None\<close> only (a model instance
  is truthy). The block calls \<^verbatim>\<open>_get\<close> and \<^verbatim>\<open>_create\<close>, so what it raises is what their
  handlers raised, and this operation's own handler handles that.
\<close>

definition try_create_if_not_exists ::
    "repository \<Rightarrow> kwargs \<Rightarrow> storage \<Rightarrow> (exc + entity \<times> bool) \<times> storage" where
  "try_create_if_not_exists r kw s =
     (case repo_get r kw s of
        (Inl e, s1) \<Rightarrow> (Inl e, s1)
      | (Inr (Some obj), s1) \<Rightarrow> (Inr (obj, False), s1)
      | (Inr None, s1) \<Rightarrow>
          (case repo_create r kw s1 of
             (Inl e, s2) \<Rightarrow> (Inl e, s2)
           | (Inr obj, s2) \<Rightarrow> (Inr (obj, True), s2)))"

definition repo_create_if_not_exists ::
    "repository \<Rightarrow> kwargs \<Rightarrow> storage \<Rightarrow> (exc + entity \<times> bool) \<times> storage" where
  "repo_create_if_not_exists r kw s =
     handler r CreateObjectFailed (try_create_if_not_exists r kw s)"

definition try_get_all :: "repository \<Rightarrow> kwargs \<Rightarrow> storage \<Rightarrow> (exc + entity list) \<times> storage" where
  "try_get_all r kw s =
     (case select_filter_by r kw of
        Inl e \<Rightarrow> (Inl e, s)
      | Inr query \<Rightarrow>
          (case execute_select query s of
             (Inl e, s1) \<Rightarrow> (Inl e, s1)
           | (Inr result, s1) \<Rightarrow> (Inr result, s1)))"

definition repo_get_all :: "repository \<Rightarrow> kwargs \<Rightarrow> storage \<Rightarrow> (exc + entity list) \<times> storage" where
  "repo_get_all r kw s = handler r GetAllFailed (try_get_all r kw s)"

text \<open>
  \<^verbatim>\<open>_update\<close>: the body of \<^verbatim>\<open>for key, value in kwargs.items()\<close> ends in
  \<^verbatim>\<open>return obj\<close>, so the first item leaves the loop and the function; with no item the
  loop body never runs and the function falls off its end, returning \<^verbatim>\<open>None\<close>.
  The second component is the caller's instance after the call (\<^verbatim>\<open>setattr\<close> and the
  session change it in place).
\<close>

fun try_update ::
    "repository \<Rightarrow> entity \<Rightarrow> kwargs \<Rightarrow> storage \<Rightarrow> (exc + entity option) \<times> entity \<times> storage" where
  "try_update r obj [] s = (Inr None, obj, s)"
| "try_update r obj ((key, v) # rest) s =
     (let obj1 = setattr r obj key v in
      case commit_add r obj1 s of
        (Inl e, s1) \<Rightarrow> (Inl e, obj1, s1)
      | (Inr obj2, s1) \<Rightarrow>
          (case refresh r obj2 s1 of
             (Inl e, s2) \<Rightarrow> (Inl e, obj2, s2)
           | (Inr obj3, s2) \<Rightarrow> (Inr (Some obj3), obj3, s2)))"

definition repo_update ::
    "repository \<Rightarrow> entity \<Rightarrow> kwargs \<Rightarrow> storage \<Rightarrow> (exc + entity option) \<times> entity \<times> storage" where
  "repo_update r obj kw s = handler r UpdateFailed (try_update r obj kw s)"

definition try_delete :: "entity \<Rightarrow> storage \<Rightarrow> (exc + unit) \<times> storage" where
  "try_delete obj s =
     (case commit_delete obj s of
        (Inl e, s1) \<Rightarrow> (Inl e, s1)
      | (Inr u, s1) \<Rightarrow> (Inr u, s1))"

definition repo_delete :: "repository \<Rightarrow> entity \<Rightarrow> storage \<Rightarrow> (exc + unit) \<times> storage" where
  "repo_delete r obj s = handler r DeleteFailed (try_delete obj s)"

text \<open>
  \<^verbatim>\<open>_exists\<close>: \<^verbatim>\<open>kwargs['id']\<close> raises \<^verbatim>\<open>KeyError\<close> inside the \<^verbatim>\<open>try\<close>; the value
  returned is \<^verbatim>\<open>result.scalar_one_or_none() is not None\<close>.
\<close>

definition try_exists :: "kwargs \<Rightarrow> storage \<Rightarrow> (exc + bool) \<times> storage" where
  "try_exists kw s =
     (case map_of kw ''id'' of
        None \<Rightarrow> (Inl (KeyError ''id''), s)
      | Some v \<Rightarrow>
          (case execute_exists v s of
             (Inl e, s1) \<Rightarrow> (Inl e, s1)
           | (Inr result, s1) \<Rightarrow>
               (case scalar_one_or_none result of
                  Inl e \<Rightarrow> (Inl e, s1)
                | Inr found \<Rightarrow> (Inr (found \<noteq> None), s1))))"

definition repo_exists :: "repository \<Rightarrow> kwargs \<Rightarrow> storage \<Rightarrow> (exc + bool) \<times> storage" where
  "repo_exists r kw s = handler r ExistsFailed (try_exists kw s)"

definition try_filter :: "repository \<Rightarrow> kwargs \<Rightarrow> storage \<Rightarrow> (exc + entity list) \<times> storage" where
  "try_filter r kw s =
     (case select_filter_by r kw of
        Inl e \<Rightarrow> (Inl e, s)
      | Inr query \<Rightarrow>
          (case execute_select query s of
             (Inl e, s1) \<Rightarrow> (Inl e, s1)
           | (Inr result, s1) \<Rightarrow> (Inr result, s1)))"

definition repo_filter :: "repository \<Rightarrow> kwargs \<Rightarrow> storage \<Rightarrow> (exc + entity list) \<times> storage" where
  "repo_filter r kw s = handler r FilterFailed (try_filter r kw s)"

definition try_delete_all :: "storage \<Rightarrow> (exc + unit) \<times> storage" where
  "try_delete_all s =
     (case execute_delete_commit s of
        (Inl e, s1) \<Rightarrow> (Inl e, s1)
      | (Inr u, s1) \<Rightarrow> (Inr u, s1))"

definition repo_delete_all :: "repository \<Rightarrow> storage \<Rightarrow> (exc + unit) \<times> storage" where
  "repo_delete_all r s = handler r DeleteAllFailed (try_delete_all s)"

subsection \<open>Calls, outcomes and sample data\<close>

text \<open>A call of any of the nine operations, and what it raises and leaves in storage.\<close>

datatype call =
    Create kwargs | Get kwargs | CreateIfNotExists kwargs | GetAll kwargs
  | Update entity kwargs | Delete entity | Exists kwargs | Filter kwargs | DeleteAll

definition raised :: "exc + 'a \<Rightarrow> exc option" where
  "raised x = (case x of Inl e \<Rightarrow> Some e | Inr _ \<Rightarrow> None)"

fun outcome :: "repository \<Rightarrow> call \<Rightarrow> storage \<Rightarrow> exc option \<times> storage" where
  "outcome r (Create kw) s = (raised (fst (repo_create r kw s)), snd (repo_create r kw s))"
| "outcome r (Get kw) s = (raised (fst (repo_get r kw s)), snd (repo_get r kw s))"
| "outcome r (CreateIfNotExists kw) s =
     (raised (fst (repo_create_if_not_exists r kw s)), snd (repo_create_if_not_exists r kw s))"
| "outcome r (GetAll kw) s = (raised (fst (repo_get_all r kw s)), snd (repo_get_all r kw s))"
| "outcome r (Update obj kw) s =
     (raised (fst (repo_update r obj kw s)), snd (snd (repo_update r obj kw s)))"
| "outcome r (Delete obj) s = (raised (fst (repo_delete r obj s)), snd (repo_delete r obj s))"
| "outcome r (Exists kw) s = (raised (fst (repo_exists r kw s)), snd (repo_exists r kw s))"
| "outcome r (Filter kw) s = (raised (fst (repo_filter r kw s)), snd (repo_filter r kw s))"
| "outcome r DeleteAll s = (raised (fst (repo_delete_all r s)), snd (repo_delete_all r s))"

text \<open>What the \<^verbatim>\<open>try\<close> block of a call raises and leaves in storage.\<close>

fun attempt :: "repository \<Rightarrow> call \<Rightarrow> storage \<Rightarrow> exc option \<times> storage" where
  "attempt r (Create kw) s = (raised (fst (try_create r kw s)), snd (try_create r kw s))"
| "attempt r (Get kw) s = (raised (fst (try_get r kw s)), snd (try_get r kw s))"
| "attempt r (CreateIfNotExists kw) s =
     (raised (fst (try_create_if_not_exists r kw s)), snd (try_create_if_not_exists r kw s))"
| "attempt r (GetAll kw) s = (raised (fst (try_get_all r kw s)), snd (try_get_all r kw s))"
| "attempt r (Update obj kw) s =
     (raised (fst (try_update r obj kw s)), snd (snd (try_update r obj kw s)))"
| "attempt r (Delete obj) s = (raised (fst (try_delete obj s)), snd (try_delete obj s))"
| "attempt r (Exists kw) s = (raised (fst (try_exists kw s)), snd (try_exists kw s))"
| "attempt r (Filter kw) s = (raised (fst (try_filter r kw s)), snd (try_filter r kw s))"
| "attempt r DeleteAll s = (raised (fst (try_delete_all s)), snd (try_delete_all s))"

text \<open>The text of the message each call's handler names.\<close>

fun template_of :: "call \<Rightarrow> template" where
  "template_of (Create kw) = CreateFailed"
| "template_of (Get kw) = GetFailed"
| "template_of (CreateIfNotExists kw) = CreateObjectFailed"
| "template_of (GetAll kw) = GetAllFailed"
| "template_of (Update obj kw) = UpdateFailed"
| "template_of (Delete obj) = DeleteFailed"
| "template_of (Exists kw) = ExistsFailed"
| "template_of (Filter kw) = FilterFailed"
| "template_of DeleteAll = DeleteAllFailed"


text \<open>The next \<open>n\<close> round trips to storage go through.\<close>

definition healthy :: "nat \<Rightarrow> storage \<Rightarrow> bool" where
  "healthy n s = list_all (\<lambda>f. f = None) (take n (faults s))"


text \<open>A model with two columns, and some tables of it.\<close>

definition user_repo :: repository where
  "user_repo = \<lparr>model_name = ''User'', columns = [''name'', ''flag'']\<rparr>"

definition user_row :: "int \<Rightarrow> string \<Rightarrow> bool \<Rightarrow> kwargs" where
  "user_row i n b = [(''id'', VInt i), (''name'', VStr n), (''flag'', VBool b)]"

definition empty_store :: storage where
  "empty_store = \<lparr>rows = [], next_id = 1, faults = []\<rparr>"



definition one_user :: storage where
  "one_user = \<lparr>rows = [user_row 1 ''a'' False], next_id = 2, faults = []\<rparr>"

definition two_users :: storage where
  "two_users = \<lparr>rows = [user_row 1 ''a'' False, user_row 2 ''a'' True], next_id = 3, faults = []\<rparr>"

section \<open>Failures\<close>

subsection \<open>What a failing round trip does to each \<^verbatim>\<open>try\<close> block\<close>

text \<open>
  Every primitive and every \<^verbatim>\<open>try\<close> block uses up a prefix of the schedule, and a
  failure in that prefix is what it raises.
\<close>

lemma touch_result:
  "touch s = (x, s') \<Longrightarrow>
     rows s' = rows s \<and> next_id s' = next_id s \<and>
     (\<exists>pre. faults s = pre @ faults s' \<and> (\<forall>f. Some f \<in> set pre \<longrightarrow> x = Some f))"
  by (auto simp: touch_def split: list.splits)

















subsection \<open>The handler\<close>

lemma handler_Inl: "handler r t (Inl e, s) = (Inl (wrap r t e), s)"
  by (simp add: handler_def)

lemma handler_Inr: "handler r t (Inr x, s) = (Inr x, s)"
  by (simp add: handler_def)

lemma raised_handler: "raised (fst (handler r t x)) = map_option (wrap r t) (raised (fst x))"
  by (cases x; cases "fst x") (auto simp: handler_def raised_def)

lemma snd_handler: "snd (handler r t x) = snd x"
  by (cases x; cases "fst x") (auto simp: handler_def)








subsection \<open>Every operation\<close>

lemma outcome_attempt:
  "fst (outcome r c s) = map_option (wrap r (template_of c)) (fst (attempt r c s)) \<and>
   snd (outcome r c s) = snd (attempt r c s)"
  by (cases c)
     (simp_all add: repo_create_def repo_get_def repo_create_if_not_exists_def repo_get_all_def
        repo_update_def repo_delete_def repo_exists_def repo_filter_def repo_delete_all_def
        raised_handler snd_handler)



text \<open>No operation raises a \<^verbatim>\<open>DatabaseError\<close>.\<close>

lemma no_database_error: "fst (outcome r c s) \<noteq> Some (DatabaseError t n e)"
  using outcome_attempt [of r c s] by (auto simp: wrap_def)




section \<open>Queries\<close>

subsection \<open>Round trips that go through\<close>

lemma touch_healthy:
  assumes "healthy (Suc n) s"
  shows "touch s = (None, s\<lparr>faults := tl (faults s)\<rparr>)"
    and "healthy n (s\<lparr>faults := tl (faults s)\<rparr>)"
proof -
  show "touch s = (None, s\<lparr>faults := tl (faults s)\<rparr>)"
  proof (cases "faults s")
    case Nil
    then have "s\<lparr>faults := tl (faults s)\<rparr> = s" by (cases s) simp
    with Nil show ?thesis by (simp add: touch_def)
  next
    case (Cons f fs)
    with assms show ?thesis by (simp add: touch_def healthy_def)
  qed
  show "healthy n (s\<lparr>faults := tl (faults s)\<rparr>)"
    using assms by (cases "faults s") (simp_all add: healthy_def)
qed

lemma get_found_nothing:
  assumes "list_all (is_column r) (map fst kw)" and "healthy (Suc n) s"
    and "filter (matches kw) (rows s) = []"
  shows "repo_get r kw s = (Inr None, s\<lparr>faults := tl (faults s)\<rparr>)"
  using assms touch_healthy(1) [OF assms(2)]
  by (simp add: repo_get_def try_get_def handler_def select_filter_by_def execute_select_def)


lemma get_found_many:
  assumes "2 \<le> length (filter (matches kw) (rows s))"
  shows "\<exists>c. fst (repo_get r kw s) = Inl (wrap r GetFailed c)"
proof -
  obtain x s1 where t: "touch s = (x, s1)" by (cases "touch s")
  then have "rows s1 = rows s" by (auto simp: touch_def split: list.splits)
  with assms obtain a b zs where "map load (filter (matches kw) (rows s1)) = a # b # zs"
    by (cases "filter (matches kw) (rows s)" rule: scalar_one_or_none.cases) auto
  with t show ?thesis
    by (cases x)
       (auto simp: repo_get_def try_get_def handler_def select_filter_by_def execute_select_def)
qed

lemma delete_persisted:
  assumes "ident obj = Some pk" and "healthy (Suc n) s"
  shows "repo_delete r obj s =
     (Inr (), s\<lparr>faults := tl (faults s), rows := filter (\<lambda>row. attr row ''id'' \<noteq> pk) (rows s)\<rparr>)"
  using assms touch_healthy(1) [OF assms(2)]
  by (simp add: repo_delete_def try_delete_def handler_def commit_delete_def)

subsection \<open>\<^verbatim>\<open>_get\<close>, \<^verbatim>\<open>_get_all\<close> and \<^verbatim>\<open>_filter\<close>\<close>

text \<open>
  Claim C6. For all filter fields and every state of the storage, \<^verbatim>\<open>_filter\<close> and
  \<^verbatim>\<open>_get_all\<close> return the same list of entities and leave the same storage; when one
  fails so does the other, its handler handling the same exception, and only the text of
  the message the handler names differs.
\<close>

theorem get_all_and_filter_agree:
  "(\<forall>xs. (fst (repo_filter r kw s) = Inr xs) = (fst (repo_get_all r kw s) = Inr xs)) \<and>
   (\<forall>c. (fst (repo_filter r kw s) = Inl (wrap r FilterFailed c)) =
        (fst (repo_get_all r kw s) = Inl (wrap r GetAllFailed c))) \<and>
   snd (repo_filter r kw s) = snd (repo_get_all r kw s)"
  by (auto simp: repo_filter_def repo_get_all_def try_filter_def try_get_all_def handler_def
        wrap_def split: sum.splits prod.splits)

theorem get_all_and_filter_agree_witness:
  "fst (repo_filter user_repo [(''name'', VStr ''a'')] two_users) =
     Inr [load (user_row 1 ''a'' False), load (user_row 2 ''a'' True)] \<and>
   fst (repo_get_all user_repo [(''name'', VStr ''a'')] two_users) =
     Inr [load (user_row 1 ''a'' False), load (user_row 2 ''a'' True)]"
proof -
  have "fst (repo_filter user_repo [(''name'', VStr ''a'')] two_users) =
     Inr [load (user_row 1 ''a'' False), load (user_row 2 ''a'' True)]"
    by code_simp
  with get_all_and_filter_agree [of user_repo "[(''name'', VStr ''a'')]" two_users]
  show ?thesis by metis
qed

text \<open>
  Claim C7. A filter (on attributes of the model, with the query reaching storage) that
  matches no row makes \<^verbatim>\<open>_get\<close> return \<^verbatim>\<open>None\<close>, not raise. In particular, once
  \<^verbatim>\<open>_delete\<close> has removed the entity that was the only match of a filter, \<^verbatim>\<open>_get\<close> with
  that filter returns \<^verbatim>\<open>None\<close>.
\<close>

theorem get_absent:
  assumes "list_all (is_column r) (map fst kw)"
  shows "(healthy 1 s \<and> filter (matches kw) (rows s) = [] \<longrightarrow>
            fst (repo_get r kw s) = Inr None) \<and>
         (healthy 2 s \<and> ident obj = Some pk \<and>
          list_all (\<lambda>row. attr row ''id'' = pk) (filter (matches kw) (rows s)) \<longrightarrow>
            fst (repo_delete r obj s) = Inr () \<and>
            fst (repo_get r kw (snd (repo_delete r obj s))) = Inr None)"
proof (intro conjI impI)
  assume "healthy 1 s \<and> filter (matches kw) (rows s) = []"
  with assms get_found_nothing [of r kw 0 s] show "fst (repo_get r kw s) = Inr None" by simp
next
  assume h: "healthy 2 s \<and> ident obj = Some pk \<and>
          list_all (\<lambda>row. attr row ''id'' = pk) (filter (matches kw) (rows s))"
  then have h2: "healthy (Suc 1) s" by (simp add: numeral_2_eq_2)
  let ?s1 = "s\<lparr>faults := tl (faults s), rows := filter (\<lambda>row. attr row ''id'' \<noteq> pk) (rows s)\<rparr>"
  from h h2 have d: "repo_delete r obj s = (Inr (), ?s1)" by (simp add: delete_persisted)
  then show "fst (repo_delete r obj s) = Inr ()" by simp
  from touch_healthy(2) [OF h2] have "healthy (Suc 0) ?s1" by (simp add: healthy_def)
  moreover from h have "filter (matches kw) (rows ?s1) = []"
    by (auto simp: filter_empty_conv list_all_iff)
  ultimately have "repo_get r kw ?s1 = (Inr None, ?s1\<lparr>faults := tl (faults ?s1)\<rparr>)"
    using assms by (rule_tac get_found_nothing) auto
  with d show "fst (repo_get r kw (snd (repo_delete r obj s))) = Inr None" by simp
qed

theorem get_absent_witness:
  "list_all (is_column user_repo) (map fst [(''name'', VStr ''a'')]) \<and>
   healthy 1 empty_store \<and> filter (matches [(''name'', VStr ''a'')]) (rows empty_store) = [] \<and>
   fst (repo_get user_repo [(''name'', VStr ''a'')] empty_store) = Inr None \<and>
   healthy 2 one_user \<and> ident (load (user_row 1 ''a'' False)) = Some (VInt 1) \<and>
   list_all (\<lambda>row. attr row ''id'' = VInt 1)
     (filter (matches [(''name'', VStr ''a'')]) (rows one_user)) \<and>
   fst (repo_delete user_repo (load (user_row 1 ''a'' False)) one_user) = Inr () \<and>
   fst (repo_get user_repo [(''name'', VStr ''a'')]
          (snd (repo_delete user_repo (load (user_row 1 ''a'' False)) one_user))) = Inr None"
proof -
  have c: "list_all (is_column user_repo) (map fst [(''name'', VStr ''a'')])" by code_simp
  have a1: "healthy 1 empty_store \<and>
      filter (matches [(''name'', VStr ''a'')]) (rows empty_store) = []" by code_simp
  have a2: "healthy 2 one_user \<and> ident (load (user_row 1 ''a'' False)) = Some (VInt 1) \<and>
      list_all (\<lambda>row. attr row ''id'' = VInt 1)
        (filter (matches [(''name'', VStr ''a'')]) (rows one_user))" by code_simp
  from get_absent [OF c, where s = empty_store] a1
  have r1: "fst (repo_get user_repo [(''name'', VStr ''a'')] empty_store) = Inr None" by blast
  from get_absent [OF c, where s = one_user and obj = "load (user_row 1 ''a'' False)"
      and pk = "VInt 1"] a2
  have r2: "fst (repo_delete user_repo (load (user_row 1 ''a'' False)) one_user) = Inr () \<and>
     fst (repo_get user_repo [(''name'', VStr ''a'')]
          (snd (repo_delete user_repo (load (user_row 1 ''a'' False)) one_user))) = Inr None"
    by blast
  from c a1 a2 r1 r2 show ?thesis by blast
qed

text \<open>
  With two or more matching rows \<^verbatim>\<open>scalar_one_or_none\<close> raises, whatever the schedule,
  so \<^verbatim>\<open>_get\<close> returns none of the matches: it raises what its handler raises, and the
  rows stay as they were.
\<close>

lemma get_many_raises:
  assumes "2 \<le> length (filter (matches kw) (rows s))"
  shows "(\<exists>c. fst (repo_get r kw s) = Inl (wrap r GetFailed c)) \<and>
         rows (snd (repo_get r kw s)) = rows s"
proof
  from assms show "\<exists>c. fst (repo_get r kw s) = Inl (wrap r GetFailed c)"
    by (rule get_found_many)
  show "rows (snd (repo_get r kw s)) = rows s"
    by (auto simp: repo_get_def try_get_def handler_def execute_select_def
          split: sum.splits prod.splits option.splits dest: touch_result)
qed

text \<open>
  Claim C10. When the filter fields match more than one stored entity, \<^verbatim>\<open>_get\<close> is to
  raise the classified storage error. On the code, with two stored users of name a,
  \<^verbatim>\<open>_get(name='a')\<close> returns neither, and what it raises is not a \<^verbatim>\<open>DatabaseError\<close>: the
  handler catches \<^verbatim>\<open>MultipleResultsFound\<close>, its call of the \<^verbatim>\<open>DatabaseError\<close> constructor
  with the message alone fails, and the \<^verbatim>\<open>TypeError\<close> of that call is what leaves \<^verbatim>\<open>_get\<close>.
\<close>

theorem get_many_raises_type_error:
  "repo_get user_repo [(''name'', VStr ''a'')] two_users =
     (Inl (TypeError (Some MultipleResultsFound)), two_users)"
  by code_simp

section \<open>\<^verbatim>\<open>_exists\<close>\<close>

text \<open>
  Called without an \<^verbatim>\<open>id\<close> keyword, \<^verbatim>\<open>_exists\<close> touches no storage: the lookup
  \<^verbatim>\<open>kwargs['id']\<close> raises \<^verbatim>\<open>KeyError\<close> inside the \<^verbatim>\<open>try\<close>, and the handler handles it.
\<close>

lemma exists_without_id:
  assumes "map_of kw ''id'' = None"
  shows "repo_exists r kw s = (Inl (wrap r ExistsFailed (KeyError ''id'')), s)"
  using assms by (simp add: repo_exists_def try_exists_def handler_def)

text \<open>
  Claim C8. Without an \<^verbatim>\<open>id\<close> keyword \<^verbatim>\<open>_exists\<close> is to fail with the classified storage
  error. On the code \<^verbatim>\<open>_exists(name='a')\<close> raises no \<^verbatim>\<open>DatabaseError\<close>: the handler catches
  the \<^verbatim>\<open>KeyError\<close>, its call of the \<^verbatim>\<open>DatabaseError\<close> constructor with the message alone
  fails, and the \<^verbatim>\<open>TypeError\<close> of that call is what leaves \<^verbatim>\<open>_exists\<close>.
\<close>

theorem exists_without_id_raises_type_error:
  "repo_exists user_repo [(''name'', VStr ''a'')] two_users =
     (Inl (TypeError (Some (KeyError ''id''))), two_users)"
  by code_simp

text \<open>
  The statement \<^verbatim>\<open>_exists\<close> sends is SELECT EXISTS (...): its single row holds a boolean, so
  \<^verbatim>\<open>scalar_one_or_none()\<close> is \<^verbatim>\<open>True\<close> or \<^verbatim>\<open>False\<close> and never \<^verbatim>\<open>None\<close>, and
  \<^verbatim>\<open>is not None\<close> holds of both.
\<close>

lemma exists_never_false: "fst (repo_exists r kw s) \<noteq> Inr False"
  by (auto simp: repo_exists_def try_exists_def handler_def execute_exists_def
        split: option.splits prod.splits sum.splits)

text \<open>
  Claim C2. \<^verbatim>\<open>_exists\<close> is to return true right after \<^verbatim>\<open>_create\<close> made the entity of that
  id and false after \<^verbatim>\<open>_delete\<close> removed it. On the code the second half fails: an entity
  is created in an empty table under id 1 and deleted again, the table is empty, and
  \<^verbatim>\<open>_exists(id=1)\<close> returns \<^verbatim>\<open>True\<close>.
\<close>

theorem exists_after_delete_is_true:
  "repo_create user_repo [(''name'', VStr ''a'')] empty_store =
     (Inr (load [(''id'', VInt 1), (''name'', VStr ''a''), (''flag'', VNone)]),
      \<lparr>rows = [[(''id'', VInt 1), (''name'', VStr ''a''), (''flag'', VNone)]],
       next_id = 2, faults = []\<rparr>) \<and>
   repo_delete user_repo (load [(''id'', VInt 1), (''name'', VStr ''a''), (''flag'', VNone)])
      \<lparr>rows = [[(''id'', VInt 1), (''name'', VStr ''a''), (''flag'', VNone)]],
       next_id = 2, faults = []\<rparr> =
     (Inr (), \<lparr>rows = [], next_id = 2, faults = []\<rparr>) \<and>
   repo_exists user_repo [(''id'', VInt 1)] \<lparr>rows = [], next_id = 2, faults = []\<rparr> =
     (Inr True, \<lparr>rows = [], next_id = 2, faults = []\<rparr>)"
  by code_simp

section \<open>\<^verbatim>\<open>_update\<close>\<close>

text \<open>
  Claim C9. With no field values \<^verbatim>\<open>_update\<close> returns \<^verbatim>\<open>None\<close>, not the entity, and
  leaves the entity and the storage as they were, for every entity and every storage.
\<close>

theorem update_nothing: "repo_update r obj [] s = (Inr None, obj, s)"
  by (simp add: repo_update_def handler_def)

theorem update_nothing_witness:
  "repo_update user_repo (load (user_row 1 ''a'' False)) [] one_user =
     (Inr None, load (user_row 1 ''a'' False), one_user)"
  using update_nothing [of user_repo "load (user_row 1 ''a'' False)" one_user] by simp

text \<open>The items after the first never reach the loop body.\<close>

lemma update_ignores_rest:
  "repo_update r obj ((key, v) # rest) s = repo_update r obj [(key, v)] s"
  by (simp add: repo_update_def)

text \<open>
  Claim C1. \<^verbatim>\<open>_update\<close> given N field values is to change all N. On the code the entity
  with id 1, name a and flag false, updated with name b and flag true, comes back with
  name b and flag false.
\<close>

theorem update_two_fields_returns_first_only:
  "fst (repo_update user_repo (load (user_row 1 ''a'' False))
          [(''name'', VStr ''b''), (''flag'', VBool True)] one_user) =
     Inr (Some (load (user_row 1 ''b'' False)))"
  by code_simp

text \<open>
  Claim C4. A mutating operation is to commit its whole change or raise. On the code the
  same call of \<^verbatim>\<open>_update\<close> raises nothing and leaves in storage the row with name b and
  flag false: the first of the two changes is committed, the second is not.
\<close>

theorem update_two_fields_commits_first_only:
  "raised (fst (repo_update user_repo (load (user_row 1 ''a'' False))
             [(''name'', VStr ''b''), (''flag'', VBool True)] one_user)) = None \<and>
   rows (snd (snd (repo_update user_repo (load (user_row 1 ''a'' False))
             [(''name'', VStr ''b''), (''flag'', VBool True)] one_user))) =
     [user_row 1 ''b'' False]"
  by code_simp

section \<open>\<^verbatim>\<open>_create_if_not_exists\<close>\<close>












end
